theory Spec2Isabelle
  imports Complex_Main
begin

section \<open>The clause risk engine of \<open>backend/services/contractService.js\<close>\<close>

text \<open>
  The engine detects risky clauses in a contract text with a table of regular
  expressions, merges them with the clauses an external language model reports, scores
  the merged list and selects a recommendation.

  Conventions of the embedding.
  \<^item> A JavaScript string is a \<open>string\<close> whose characters are the code units of the
    source string; only code units below 256 are representable.
  \<^item> A JavaScript number is \<open>NaN\<close> or a finite number \<open>Num q\<close> with \<open>q\<close> an exact
    rational: the rounding of IEEE-754 doubles and the infinities are not modelled.
  \<^item> An object literal used as a table is an association list read at its own keys
    (\<open>map_of\<close>); the properties every object inherits from \<open>Object.prototype\<close>
    (\<open>constructor\<close>, \<open>toString\<close>, ...) are not modelled, so category and severity
    strings are taken not to be one of those names.
  \<^item> A clause is an object with the fields \<open>title\<close>, \<open>quote\<close>, \<open>severity\<close>,
    \<open>category\<close> and \<open>riskScore\<close> present and of their expected types; \<open>explanation\<close>
    may be absent. A \<open>riskScore\<close> of \<open>0\<close> is falsy, as an absent one would be.
\<close>

subsection \<open>Numbers\<close>

datatype jsnum = NaN | Num rat

fun js_add :: "jsnum \<Rightarrow> jsnum \<Rightarrow> jsnum" where
  "js_add (Num a) (Num b) = Num (a + b)"
| "js_add _ _ = NaN"

fun js_mul :: "jsnum \<Rightarrow> jsnum \<Rightarrow> jsnum" where
  "js_mul (Num a) (Num b) = Num (a * b)"
| "js_mul _ _ = NaN"

text \<open>
  A zero divisor gives an infinity or \<open>NaN\<close> in JavaScript; the only division of the
  engine has a positive divisor, and the model answers \<open>NaN\<close> for a zero one.
\<close>

fun js_div :: "jsnum \<Rightarrow> jsnum \<Rightarrow> jsnum" where
  "js_div (Num a) (Num b) = (if b = 0 then NaN else Num (a / b))"
| "js_div _ _ = NaN"

text \<open>\<open>Math.round\<close> rounds to the nearest integer, a half towards plus infinity.\<close>

fun js_round :: "jsnum \<Rightarrow> jsnum" where
  "js_round (Num a) = Num (of_int \<lfloor>a + 1 / 2\<rfloor>)"
| "js_round NaN = NaN"

fun js_min :: "jsnum \<Rightarrow> jsnum \<Rightarrow> jsnum" where
  "js_min (Num a) (Num b) = Num (min a b)"
| "js_min _ _ = NaN"

fun js_max :: "jsnum \<Rightarrow> jsnum \<Rightarrow> jsnum" where
  "js_max (Num a) (Num b) = Num (max a b)"
| "js_max _ _ = NaN"

text \<open>The comparison \<open>x >= k\<close>: false when \<open>x\<close> is \<open>NaN\<close>.\<close>

fun js_ge :: "jsnum \<Rightarrow> rat \<Rightarrow> bool" where
  "js_ge (Num a) k = (k \<le> a)"
| "js_ge NaN k = False"

subsection \<open>Strings\<close>

text \<open>
  \<open>String.prototype.toLowerCase\<close> on a code unit below 256: the letters \<open>A\<close> to \<open>Z\<close> and the
  Latin-1 capitals \<open>0xC0\<close> to \<open>0xDE\<close>, the multiplication sign \<open>0xD7\<close> apart, move up by 32.
\<close>

definition toLowerCaseChar :: "char \<Rightarrow> char" where
  "toLowerCaseChar c =
     (let n = (of_char c :: nat)
      in if (65 \<le> n \<and> n \<le> 90) \<or> (192 \<le> n \<and> n \<le> 222 \<and> n \<noteq> 215) then char_of (n + 32)
         else c)"

definition toLowerCase :: "string \<Rightarrow> string" where
  "toLowerCase s = map toLowerCaseChar s"

fun startsWith :: "string \<Rightarrow> string \<Rightarrow> bool" where
  "startsWith s [] = True"
| "startsWith [] (p # ps) = False"
| "startsWith (c # cs) (p # ps) = (c = p \<and> startsWith cs ps)"

text \<open>\<open>s.includes(sub)\<close>: \<open>sub\<close> occurs in \<open>s\<close> as a contiguous substring.\<close>

fun includes_str :: "string \<Rightarrow> string \<Rightarrow> bool" where
  "includes_str [] sub = (sub = [])"
| "includes_str (c # cs) sub = (startsWith (c # cs) sub \<or> includes_str cs sub)"

text \<open>
  \<open>String.prototype.trim\<close> removes white space and line terminators at both ends; below
  256 these are the code units 9 to 13, 32 and 160.
\<close>

definition isWhiteSpace :: "char \<Rightarrow> bool" where
  "isWhiteSpace c = (let n = (of_char c :: nat) in (9 \<le> n \<and> n \<le> 13) \<or> n = 32 \<or> n = 160)"

definition trim :: "string \<Rightarrow> string" where
  "trim s = rev (dropWhile isWhiteSpace (rev (dropWhile isWhiteSpace s)))"

text \<open>The decimal digits of a natural number, as a template literal prints a length.\<close>

fun showNat :: "nat \<Rightarrow> string" where
  "showNat n =
     (if n < 10 then [char_of (48 + n)] else showNat (n div 10) @ [char_of (48 + n mod 10)])"

text \<open>\<open>v || d\<close> for a string that may be absent: the empty string is falsy.\<close>

definition orElse :: "string option \<Rightarrow> string \<Rightarrow> string" where
  "orElse v d = (case v of None \<Rightarrow> d | Some s \<Rightarrow> if s = [] then d else s)"

subsection \<open>Regular expressions\<close>

text \<open>
  The patterns of the risk table use literal characters, \<open>.\<close>, \<open>.?\<close> and \<open>.*\<close> only, and
  are all matched with the flags \<open>g\<close> and \<open>i\<close>. A pattern is kept as its source text and
  parsed into a list of atoms.
\<close>

datatype atom = Lit char | Any | AnyOpt | AnyStar

fun parseRegex :: "string \<Rightarrow> atom list" where
  "parseRegex [] = []"
| "parseRegex [c] = [if c = CHR ''.'' then Any else Lit c]"
| "parseRegex (c # d # r) =
     (if c = CHR ''.'' \<and> d = CHR ''?'' then AnyOpt # parseRegex r
      else if c = CHR ''.'' \<and> d = CHR ''*'' then AnyStar # parseRegex r
      else (if c = CHR ''.'' then Any else Lit c) # parseRegex (d # r))"

text \<open>The dot matches every code unit but a line terminator.\<close>

definition isLineTerminator :: "char \<Rightarrow> bool" where
  "isLineTerminator c = (c = CHR 0x0A \<or> c = CHR 0x0D)"

text \<open>
  Case-insensitive comparison canonicalizes both code units with \<open>toUpperCase\<close>. The
  literals of the table are ASCII, and a code unit from 128 on never canonicalizes to an
  ASCII one, so only the letters \<open>a\<close> to \<open>z\<close> need to move.
\<close>

definition canonicalize :: "char \<Rightarrow> char" where
  "canonicalize c =
     (let n = (of_char c :: nat) in if 97 \<le> n \<and> n \<le> 122 then char_of (n - 32) else c)"

text \<open>
  The backtracking matcher at one position: the length of the match the engine finds
  first, greedy quantifiers taking the longest alternative first.
\<close>

fun matchAt :: "atom list \<Rightarrow> string \<Rightarrow> nat option" where
  "matchAt [] s = Some 0"
| "matchAt (Lit c # r) [] = None"
| "matchAt (Lit c # r) (x # xs) =
     (if canonicalize x = canonicalize c then map_option Suc (matchAt r xs) else None)"
| "matchAt (Any # r) [] = None"
| "matchAt (Any # r) (x # xs) =
     (if isLineTerminator x then None else map_option Suc (matchAt r xs))"
| "matchAt (AnyOpt # r) [] = matchAt r []"
| "matchAt (AnyOpt # r) (x # xs) =
     (if isLineTerminator x then matchAt r (x # xs)
      else (case matchAt r xs of Some k \<Rightarrow> Some (Suc k) | None \<Rightarrow> matchAt r (x # xs)))"
| "matchAt (AnyStar # r) [] = matchAt r []"
| "matchAt (AnyStar # r) (x # xs) =
     (if isLineTerminator x then matchAt r (x # xs)
      else (case matchAt (AnyStar # r) xs of
              Some k \<Rightarrow> Some (Suc k)
            | None \<Rightarrow> matchAt r (x # xs)))"

text \<open>
  \<open>text.match(new RegExp(source, 'gi'))\<close>: the matched substrings from left to right,
  each search starting where the last match ended (one further after an empty match).
  \<open>skip\<close> counts the code units still covered by the last match. No match gives
  \<open>null\<close> in the source, which the caller treats as no iteration: the empty list here.
\<close>

fun matchAllFrom :: "atom list \<Rightarrow> nat \<Rightarrow> string \<Rightarrow> string list" where
  "matchAllFrom p skip [] = (if skip = 0 \<and> matchAt p [] \<noteq> None then [[]] else [])"
| "matchAllFrom p skip (x # xs) =
     (if 0 < skip then matchAllFrom p (skip - 1) xs
      else (case matchAt p (x # xs) of
              None \<Rightarrow> matchAllFrom p 0 xs
            | Some k \<Rightarrow> take k (x # xs) # matchAllFrom p (k - 1) xs))"

definition matchGlobal :: "string \<Rightarrow> string \<Rightarrow> string list" where
  "matchGlobal source text = matchAllFrom (parseRegex source) 0 text"

text \<open>
  \<open>text.split(/[.!?]+/)\<close>: the pieces between maximal runs of sentence marks; a run at
  either end leaves an empty piece there, and the empty text gives one empty piece.
\<close>

definition isSentenceEnd :: "char \<Rightarrow> bool" where
  "isSentenceEnd c = (c = CHR ''.'' \<or> c = CHR ''!'' \<or> c = CHR ''?'')"

fun splitSentences :: "string \<Rightarrow> string list" where
  "splitSentences [] = [[]]"
| "splitSentences (c # cs) =
     (if isSentenceEnd c then
        (if cs \<noteq> [] \<and> isSentenceEnd (hd cs) then splitSentences cs
         else [] # splitSentences cs)
      else (case splitSentences cs of [] \<Rightarrow> [[c]] | w # ws \<Rightarrow> (c # w) # ws))"

subsection \<open>Clauses\<close>

record clause =
  title :: string
  quote :: string
  explanation :: "string option"
  severity :: string
  category :: string
  riskScore :: rat

subsection \<open>The pattern detector\<close>

record riskConfig =
  patterns :: "string list"
  cfg_severity :: string
  cfg_category :: string

text \<open>The table \<open>riskPatterns\<close>, in the order \<open>Object.entries\<close> iterates it.\<close>

definition riskPatterns :: "(string \<times> riskConfig) list" where
  "riskPatterns =
     [(''auto-renewal'',
       \<lparr>patterns =
          [''automatically renew'', ''auto.?renewal'', ''unless.*notice.*terminate'',
           ''shall continue.*unless.*terminated'', ''renew.*additional.*term''],
        cfg_severity = ''Medium'', cfg_category = ''auto-renewal''\<rparr>),
      (''termination-penalty'',
       \<lparr>patterns =
          [''early termination.*fee'', ''penalty.*cancel'', ''liquidated damages'',
           ''termination.*penalty'', ''cancellation.*fee''],
        cfg_severity = ''High'', cfg_category = ''penalty''\<rparr>),
      (''non-compete'',
       \<lparr>patterns =
          [''non.?compete'', ''restraint.*trade'', ''competing.*business'',
           ''solicit.*customers'', ''covenant.*not.*compete''],
        cfg_severity = ''High'', cfg_category = ''non-compete''\<rparr>),
      (''arbitration'',
       \<lparr>patterns =
          [''binding arbitration'', ''waive.*right.*jury'', ''dispute.*arbitration'',
           ''mandatory arbitration'', ''arbitration.*agreement''],
        cfg_severity = ''Medium'', cfg_category = ''arbitration''\<rparr>),
      (''liability-limitation'',
       \<lparr>patterns =
          [''limit.*liability'', ''exclude.*damages'', ''no.*consequential.*damages'',
           ''liability.*limited.*to'', ''maximum.*liability''],
        cfg_severity = ''Medium'', cfg_category = ''liability''\<rparr>),
      (''hidden-fees'',
       \<lparr>patterns =
          [''additional.*fees'', ''service.*charges'', ''processing.*fee'',
           ''administrative.*cost'', ''miscellaneous.*charges''],
        cfg_severity = ''Medium'', cfg_category = ''hidden-fees''\<rparr>),
      (''refund-restrictions'',
       \<lparr>patterns =
          [''no.*refund'', ''non.?refundable'', ''refund.*policy'', ''no.*return'',
           ''final.*sale''],
        cfg_severity = ''Medium'', cfg_category = ''refund-restrictions''\<rparr>)]"

definition formatRiskTitle :: "string \<Rightarrow> string" where
  "formatRiskTitle riskType =
     orElse (map_of
        [(''auto-renewal'', ''Automatic Renewal Clause''),
         (''termination-penalty'', ''Early Termination Penalty''),
         (''non-compete'', ''Non-Compete Restriction''),
         (''arbitration'', ''Mandatory Arbitration''),
         (''liability-limitation'', ''Liability Limitation''),
         (''hidden-fees'', ''Additional Fees''),
         (''refund-restrictions'', ''Refund Restrictions'')] riskType)
       ''Risky Clause''"

definition severityScores :: "(string \<times> rat) list" where
  "severityScores = [(''Low'', 3), (''Medium'', 6), (''High'', 9)]"

text \<open>The per-clause weights of \<open>calculateClauseRiskScore\<close>.\<close>

definition categoryWeights :: "(string \<times> rat) list" where
  "categoryWeights =
     [(''termination'', 1),
      (''penalty'', 9 / 10),
      (''non-compete'', 1),
      (''auto-renewal'', 7 / 10),
      (''arbitration'', 8 / 10),
      (''liability'', 8 / 10),
      (''hidden-fees'', 6 / 10),
      (''refund-restrictions'', 7 / 10)]"

definition calculateClauseRiskScore :: "string \<Rightarrow> string \<Rightarrow> rat" where
  "calculateClauseRiskScore sev cat =
     (let baseScore = (case map_of severityScores sev of None \<Rightarrow> 5 | Some s \<Rightarrow> s);
          weight = (case map_of categoryWeights cat of None \<Rightarrow> 8 / 10 | Some w \<Rightarrow> w)
      in of_int \<lfloor>baseScore * weight + 1 / 2\<rfloor>)"

text \<open>
  The duplicate test of both deduplications: the same category and the same first
  \<open>n\<close> code units of the quote (\<open>substring(0, n)\<close>).
\<close>

definition isDuplicateOf :: "nat \<Rightarrow> clause \<Rightarrow> clause \<Rightarrow> bool" where
  "isDuplicateOf n existing c =
     (category existing = category c \<and> take n (quote existing) = take n (quote c))"

definition removeDuplicateClauses :: "clause list \<Rightarrow> clause list" where
  "removeDuplicateClauses clauses =
     foldl (\<lambda>unique c. if list_ex (\<lambda>existing. isDuplicateOf 100 existing c) unique
                         then unique else unique @ [c]) [] clauses"

text \<open>
  The body of the innermost \<open>forEach\<close>: the clause pushed for one match, if any. \<open>find\<close>
  gives the first sentence that contains the match, both in lower case; no sentence, an
  empty one or one of white space only pushes nothing.
\<close>

definition clausesOfMatch :: "string \<Rightarrow> string \<Rightarrow> riskConfig \<Rightarrow> string \<Rightarrow> clause list" where
  "clausesOfMatch text riskType config m =
     (case find (\<lambda>sentence. includes_str (toLowerCase sentence) (toLowerCase m))
             (splitSentences text) of
        None \<Rightarrow> []
      | Some matchingSentence \<Rightarrow>
          if matchingSentence \<noteq> [] \<and> 0 < length (trim matchingSentence) then
            [\<lparr>title = formatRiskTitle riskType,
              quote = take 300 (trim matchingSentence) @ ''...'',
              explanation = None,
              severity = cfg_severity config,
              category = cfg_category config,
              riskScore = calculateClauseRiskScore (cfg_severity config) (cfg_category config)\<rparr>]
          else [])"

text \<open>\<open>detectedClauses\<close> as the three nested \<open>forEach\<close> iterations fill it.\<close>

definition detectedClauses :: "string \<Rightarrow> clause list" where
  "detectedClauses text =
     concat (map (\<lambda>(riskType, config).
       concat (map (\<lambda>pattern.
         concat (map (clausesOfMatch text riskType config) (matchGlobal pattern text)))
         (patterns config)))
       riskPatterns)"

definition detectRiskyClausesRuleBased :: "string \<Rightarrow> clause list" where
  "detectRiskyClausesRuleBased text = removeDuplicateClauses (detectedClauses text)"

subsection \<open>The merger\<close>

definition combineRiskyClauses :: "clause list \<Rightarrow> clause list \<Rightarrow> clause list" where
  "combineRiskyClauses ruleBasedClauses aiClauses =
     take 10
       (foldl (\<lambda>combined aiClause.
                 if list_ex (\<lambda>existing. isDuplicateOf 50 existing aiClause) combined
                 then combined else combined @ [aiClause])
          ruleBasedClauses aiClauses)"

subsection \<open>The scorer\<close>

definition severityMultiplier :: "(string \<times> rat) list" where
  "severityMultiplier = [(''Low'', 1), (''Medium'', 2), (''High'', 3)]"

definition categoryWeight :: "(string \<times> rat) list" where
  "categoryWeight =
     [(''termination'', 9 / 10),
      (''penalty'', 8 / 10),
      (''non-compete'', 9 / 10),
      (''auto-renewal'', 6 / 10),
      (''arbitration'', 7 / 10),
      (''liability'', 8 / 10),
      (''hidden-fees'', 6 / 10),
      (''refund-restrictions'', 7 / 10),
      (''other'', 7 / 10)]"

text \<open>
  \<open>categoryWeight[clause.category] || 0.7\<close>: the weight applied to a category. No entry
  of the table is falsy, so the default is taken exactly for the categories without an
  entry.
\<close>

definition appliedWeight :: "string \<Rightarrow> rat" where
  "appliedWeight cat = (case map_of categoryWeight cat of None \<Rightarrow> 7 / 10 | Some w \<Rightarrow> w)"

text \<open>
  \<open>(clause.riskScore || 5) * severityMultiplier[clause.severity] *
  (categoryWeight[clause.category] || 0.7)\<close>; a severity without an entry reads
  \<open>undefined\<close>, which makes the product \<open>NaN\<close>.
\<close>

definition clauseScore :: "clause \<Rightarrow> jsnum" where
  "clauseScore c =
     js_mul
       (js_mul (Num (if riskScore c = 0 then 5 else riskScore c))
          (case map_of severityMultiplier (severity c) of None \<Rightarrow> NaN | Some m \<Rightarrow> Num m))
       (Num (appliedWeight (category c)))"

text \<open>The body of the \<open>forEach\<close>: the state is \<open>(totalScore, maxPossibleScore)\<close>.\<close>

definition scoreStep :: "jsnum \<times> jsnum \<Rightarrow> clause \<Rightarrow> jsnum \<times> jsnum" where
  "scoreStep st c = (js_add (fst st) (clauseScore c), js_add (snd st) (Num 30))"

definition calculateOverallRiskScore :: "clause list \<Rightarrow> jsnum" where
  "calculateOverallRiskScore riskyClauses =
     (if length riskyClauses = 0 then Num 20
      else
        let st = foldl scoreStep (Num 0, Num 0) riskyClauses;
            totalScore = fst st;
            maxPossibleScore = snd st;
            normalizedScore =
              js_min (Num 100) (js_round (js_mul (js_div totalScore maxPossibleScore) (Num 100)));
            minScore = js_min (Num (30 + of_nat (length riskyClauses) * 5)) (Num 70)
        in js_max normalizedScore minScore)"

subsection \<open>The recommendation\<close>

definition generateRecommendation :: "jsnum \<Rightarrow> clause list \<Rightarrow> string" where
  "generateRecommendation overallRiskScore riskyClauses =
     (let highRiskClauses = length (filter (\<lambda>c. severity c = ''High'') riskyClauses)
      in if js_ge overallRiskScore 70 \<or> 2 \<le> highRiskClauses then ''Avoid signing''
         else if js_ge overallRiskScore 40 \<or> 1 \<le> highRiskClauses then ''Review carefully''
         else ''Safe to sign'')"

subsection \<open>The pipeline\<close>

record analysis =
  summary :: string
  keyHighlights :: "string list"
  contractType :: string
  riskyClauses :: "clause list"
  overallRiskScore :: jsnum
  recommendation :: string
  negotiationTips :: "string list"
  analysisVersion :: string
  aiModel :: string
  confidence :: rat

text \<open>
  The object the model's reply parses to, every field possibly absent. The reply of the
  completion call is a parameter of the pipeline, so the prompt is not modelled:
  \<^item> \<open>CallError msg\<close>: the call rejects (transport, quota, authentication);
  \<^item> \<open>ParseError\<close>: \<open>JSON.parse\<close> throws on the reply;
  \<^item> \<open>ShapeError\<close>: the reply parses to a value on which the \<open>try\<close> block throws a
    \<open>TypeError\<close> (\<open>null\<close>, a \<open>riskyClauses\<close> that is no array, a clause without a quote);
  \<^item> \<open>Parsed a\<close>: the reply parses to the object \<open>a\<close>.

  The replies to the explanation requests are a function of the request's number, \<open>None\<close>
  for a request that throws.
\<close>

record aiAnalysis =
  ai_summary :: "string option"
  ai_keyHighlights :: "string list option"
  ai_contractType :: "string option"
  ai_riskyClauses :: "clause list option"
  ai_negotiationTips :: "string list option"
  ai_confidence :: "rat option"

datatype modelReply = CallError string | ParseError | ShapeError | Parsed aiAnalysis

datatype error = Error string | TypeError

definition getDefaultExplanation :: "string \<Rightarrow> string" where
  "getDefaultExplanation cat =
     orElse (map_of
        [(''auto-renewal'',
          ''This clause automatically extends your contract without your explicit consent, potentially locking you into unwanted terms.''),
         (''penalty'',
          ''This clause imposes financial penalties for early termination, which could be costly if you need to exit the contract.''),
         (''non-compete'',
          ''This clause restricts your ability to work in your field after the contract ends, potentially limiting your career options.''),
         (''arbitration'',
          ''This clause requires disputes to be resolved through arbitration instead of court, limiting your legal options.''),
         (''liability'',
          ''This clause limits the other party'' @ [CHR 0x27] @
          ''s responsibility for damages, potentially leaving you unprotected.''),
         (''hidden-fees'',
          ''This clause allows for additional charges that may not be clearly disclosed upfront.''),
         (''refund-restrictions'',
          ''This clause limits your ability to get refunds, potentially putting your money at risk.'')]
        cat)
      ''This clause contains terms that could be disadvantageous to you.''"

text \<open>
  \<open>enhanceClausesWithExplanations\<close>: a clause without an explanation (or with an empty
  one) gets the trimmed reply to the next explanation request, or the default text when
  the request throws. \<open>k\<close> is the number of requests made so far.
\<close>

fun enhanceClausesWithExplanations ::
  "(nat \<Rightarrow> string option) \<Rightarrow> nat \<Rightarrow> clause list \<Rightarrow> clause list" where
  "enhanceClausesWithExplanations explain k [] = []"
| "enhanceClausesWithExplanations explain k (c # cs) =
     (if explanation c = None \<or> explanation c = Some [] then
        c\<lparr>explanation :=
             Some (case explain k of
                     Some reply \<Rightarrow> trim reply
                   | None \<Rightarrow> getDefaultExplanation (category c))\<rparr>
          # enhanceClausesWithExplanations explain (Suc k) cs
      else c # enhanceClausesWithExplanations explain k cs)"

text \<open>
  \<open>createFallbackAnalysis\<close>; a caller that omits the last three arguments passes \<open>[]\<close>,
  \<open>None\<close> and \<open>None\<close> (the defaults \<open>[]\<close>, \<open>null\<close> and \<open>null\<close>).
\<close>

definition createFallbackAnalysis ::
  "string \<Rightarrow> string \<Rightarrow> clause list \<Rightarrow> jsnum option \<Rightarrow> string option \<Rightarrow> analysis" where
  "createFallbackAnalysis contractText fileName riskyClauses0 overallRiskScore0 recommendation0 =
     (let riskyClauses1 =
            (if length riskyClauses0 = 0 then detectRiskyClausesRuleBased contractText
             else riskyClauses0);
          overallRiskScore1 =
            (case overallRiskScore0 of
               None \<Rightarrow> calculateOverallRiskScore riskyClauses1
             | Some s \<Rightarrow> s);
          recommendation1 =
            (case recommendation0 of
               None \<Rightarrow> generateRecommendation overallRiskScore1 riskyClauses1
             | Some r \<Rightarrow> r)
      in \<lparr>summary =
            ''This appears to be a legal contract ('' @ fileName @
            ''). Our analysis has identified '' @ showNat (length riskyClauses1) @
            '' areas that require attention. Please review carefully before signing.'',
          keyHighlights =
            [''Contract contains standard legal terms'',
             showNat (length riskyClauses1) @ '' potential risk areas identified'',
             ''Consider consulting a legal professional for complex terms''],
          contractType = ''other'',
          riskyClauses = riskyClauses1,
          overallRiskScore = overallRiskScore1,
          recommendation = recommendation1,
          negotiationTips =
            [''Review all terms carefully before signing'',
             ''Consider negotiating unfavorable clauses'',
             ''Seek legal advice if unsure about any terms'',
             ''Ask for clarification on complex language''],
          analysisVersion = ''1.0'',
          aiModel = ''rule-based-fallback'',
          confidence = 6 / 10\<rparr>)"

text \<open>The fallback analysis read as the parsed reply, after a parse error.\<close>

definition asAiAnalysis :: "analysis \<Rightarrow> aiAnalysis" where
  "asAiAnalysis a =
     \<lparr>ai_summary = Some (summary a),
      ai_keyHighlights = Some (keyHighlights a),
      ai_contractType = Some (contractType a),
      ai_riskyClauses = Some (riskyClauses a),
      ai_negotiationTips = Some (negotiationTips a),
      ai_confidence = Some (confidence a)\<rparr>"

text \<open>The \<open>try\<close> block of \<open>analyzeContract\<close>: \<open>Inl\<close> is the error it throws.\<close>

definition analyzeTry ::
  "string \<Rightarrow> string \<Rightarrow> modelReply \<Rightarrow> (nat \<Rightarrow> string option) \<Rightarrow> error + analysis" where
  "analyzeTry contractText fileName reply explain =
     (let ruleBasedClauses = detectRiskyClausesRuleBased contractText
      in case reply of
           CallError msg \<Rightarrow> Inl (Error (''OpenAI API failed: '' @ msg))
         | ShapeError \<Rightarrow> Inl TypeError
         | _ \<Rightarrow>
             let aiAnalysis =
                   (case reply of
                      Parsed a \<Rightarrow> a
                    | _ \<Rightarrow> asAiAnalysis (createFallbackAnalysis contractText fileName [] None None));
                 combinedClauses =
                   combineRiskyClauses ruleBasedClauses
                     (case ai_riskyClauses aiAnalysis of None \<Rightarrow> [] | Some cs \<Rightarrow> cs);
                 enhancedClauses = enhanceClausesWithExplanations explain 0 combinedClauses;
                 overallRiskScore1 = calculateOverallRiskScore enhancedClauses;
                 recommendation1 = generateRecommendation overallRiskScore1 enhancedClauses
             in Inr \<lparr>summary = orElse (ai_summary aiAnalysis) ''Contract analysis completed.'',
                     keyHighlights =
                       (case ai_keyHighlights aiAnalysis of None \<Rightarrow> [] | Some h \<Rightarrow> h),
                     contractType = orElse (ai_contractType aiAnalysis) ''other'',
                     riskyClauses = enhancedClauses,
                     overallRiskScore = overallRiskScore1,
                     recommendation = recommendation1,
                     negotiationTips =
                       (case ai_negotiationTips aiAnalysis of None \<Rightarrow> [] | Some t \<Rightarrow> t),
                     analysisVersion = ''1.0'',
                     aiModel = ''gpt-4'',
                     confidence =
                       (case ai_confidence aiAnalysis of
                          None \<Rightarrow> 8 / 10
                        | Some q \<Rightarrow> if q = 0 then 8 / 10 else q)\<rparr>)"

text \<open>
  \<open>analyzeContract\<close>: the \<open>catch\<close> handler answers every error of the \<open>try\<close> block with
  the rule-based analysis. On a string the handler itself has no operation that throws,
  so the result is always \<open>Inr\<close>.
\<close>

definition analyzeContract ::
  "string \<Rightarrow> string \<Rightarrow> modelReply \<Rightarrow> (nat \<Rightarrow> string option) \<Rightarrow> error + analysis" where
  "analyzeContract contractText fileName reply explain =
     (case analyzeTry contractText fileName reply explain of
        Inr result \<Rightarrow> Inr result
      | Inl err \<Rightarrow>
          let ruleBasedClauses = detectRiskyClausesRuleBased contractText;
              enhancedClauses =
                map (\<lambda>c. c\<lparr>explanation :=
                              Some (orElse (explanation c) (getDefaultExplanation (category c)))\<rparr>)
                  ruleBasedClauses;
              overallRiskScore1 = calculateOverallRiskScore enhancedClauses;
              recommendation1 = generateRecommendation overallRiskScore1 enhancedClauses
          in Inr (createFallbackAnalysis contractText fileName enhancedClauses
                    (Some overallRiskScore1) (Some recommendation1)))"

section \<open>Notions of the properties\<close>






text \<open>The number of clauses whose severity is \<open>High\<close>.\<close>

definition highCount :: "clause list \<Rightarrow> nat" where
  "highCount cs = card {i. i < length cs \<and> severity (cs ! i) = ''High''}"

text \<open>The step both deduplications share, for a prefix length \<open>n\<close>.\<close>

definition dedupStep :: "nat \<Rightarrow> clause list \<Rightarrow> clause \<Rightarrow> clause list" where
  "dedupStep n acc c =
     (if list_ex (\<lambda>existing. isDuplicateOf n existing c) acc then acc else acc @ [c])"

text \<open>
  Every two entries of \<open>xs\<close> that collide (the same category and the same first \<open>n\<close> code
  units of the quote) both stand before position \<open>k\<close>; with \<open>k = 0\<close>, no two entries
  collide.
\<close>

definition collisionsBelow :: "nat \<Rightarrow> nat \<Rightarrow> clause list \<Rightarrow> bool" where
  "collisionsBelow n k xs =
     (\<forall>i j. i < j \<and> j < length xs \<and> isDuplicateOf n (xs ! i) (xs ! j) \<longrightarrow> j < k)"



text \<open>The explanation the \<open>catch\<close> handler gives a clause.\<close>

definition withDefaultExplanation :: "clause \<Rightarrow> clause" where
  "withDefaultExplanation c =
     c\<lparr>explanation := Some (orElse (explanation c) (getDefaultExplanation (category c)))\<rparr>"



subsection \<open>Sample inputs\<close>

text \<open>A clause as the external model may report it.\<close>

definition clauseOf :: "string \<Rightarrow> string \<Rightarrow> rat \<Rightarrow> clause" where
  "clauseOf sev cat r =
     \<lparr>title = ''Reported clause'', quote = ''As quoted by the model'',
      explanation = Some ''As explained by the model'',
      severity = sev, category = cat, riskScore = r\<rparr>"

text \<open>Eleven sentences, each with its own match of \<open>auto.?renewal\<close>.\<close>

definition elevenRenewals :: string where
  "elevenRenewals =
     ''auto0renewal.auto1renewal.auto2renewal.auto3renewal.auto4renewal.auto5renewal.auto6renewal.auto7renewal.auto8renewal.auto9renewal.auto renewal''"

text \<open>Two sentences that agree on their first 50 code units and differ after them.\<close>

definition twoRenewals :: string where
  "twoRenewals =
     ''The parties agree that under this master agreement auto-renewal applies. The parties agree that under this master agreement auto renewal applies.''"

definition renewalClause :: "string \<Rightarrow> clause" where
  "renewalClause q =
     \<lparr>title = ''Automatic Renewal Clause'', quote = q, explanation = None,
      severity = ''Medium'', category = ''auto-renewal'', riskScore = 4\<rparr>"

text \<open>
  Two clauses of the model: the first collides with the first sentence of
  \<open>twoRenewals\<close>, the second with nothing.
\<close>

definition reportedClauses :: "clause list" where
  "reportedClauses =
     [\<lparr>title = ''Renewal without notice'',
       quote = ''The parties agree that under this master agreement auto-renewal applies'',
       explanation = Some ''The contract renews by itself.'',
       severity = ''High'', category = ''auto-renewal'', riskScore = 7\<rparr>,
      \<lparr>title = ''Short notice period'',
       quote = ''Either party may terminate on notice'',
       explanation = Some ''The notice period is short.'',
       severity = ''Low'', category = ''termination'', riskScore = 3\<rparr>]"

text \<open>The code units the sample texts are made of.\<close>

definition sampleChars :: string where
  "sampleChars = ''abcdefghijklmnopqrstuvwxyzABCDEFGHIJKLMNOPQRSTUVWXYZ0123456789 .-,''"

section \<open>Evaluation on the sample inputs\<close>

text \<open>
  The character functions on the code units of the samples, evaluated once; the
  detector is then run by rewriting with its defining equations.
\<close>

lemma canonicalize_sample:
  "map canonicalize sampleChars =
     ''ABCDEFGHIJKLMNOPQRSTUVWXYZABCDEFGHIJKLMNOPQRSTUVWXYZ0123456789 .-,''"
  by code_simp

lemma toLowerCaseChar_sample:
  "map toLowerCaseChar sampleChars =
     ''abcdefghijklmnopqrstuvwxyzabcdefghijklmnopqrstuvwxyz0123456789 .-,''"
  by code_simp

lemma isWhiteSpace_sample:
  "map isWhiteSpace sampleChars = map (\<lambda>c. c = CHR '' '') sampleChars"
  by code_simp

lemma calculateClauseRiskScore_table:
  "calculateClauseRiskScore ''Medium'' ''auto-renewal'' = 4"
  "calculateClauseRiskScore ''High'' ''penalty'' = 8"
  "calculateClauseRiskScore ''High'' ''non-compete'' = 9"
  "calculateClauseRiskScore ''Medium'' ''arbitration'' = 5"
  "calculateClauseRiskScore ''Medium'' ''liability'' = 5"
  "calculateClauseRiskScore ''Medium'' ''hidden-fees'' = 4"
  "calculateClauseRiskScore ''Medium'' ''refund-restrictions'' = 4"
  by code_simp+

lemmas char_eval =
  canonicalize_sample [unfolded sampleChars_def, simplified]
  toLowerCaseChar_sample [unfolded sampleChars_def, simplified]
  isWhiteSpace_sample [unfolded sampleChars_def, simplified]
  isLineTerminator_def isSentenceEnd_def

lemmas detect_eval =
  detectRiskyClausesRuleBased_def detectedClauses_def riskPatterns_def clausesOfMatch_def
  matchGlobal_def toLowerCase_def trim_def removeDuplicateClauses_def isDuplicateOf_def
  formatRiskTitle_def orElse_def calculateClauseRiskScore_table

text \<open>
  The string functions on small inputs, as the JavaScript engine answers: the pieces of
  \<open>split\<close> around runs of sentence marks, the greedy \<open>.*\<close> running to the last
  continuation on the line and stopping at a line feed, \<open>.?\<close> taking at most one code
  unit, and \<open>trim\<close>.
\<close>

lemma splitSentences_checks:
  "splitSentences ''a.b'' = [''a'', ''b'']"
  "splitSentences ''a..b!?'' = [''a'', ''b'', []]"
  "splitSentences ''.a'' = [[], ''a'']"
  "splitSentences ''...'' = [[], []]"
  "splitSentences [] = [[]]"
  by (simp_all add: isSentenceEnd_def)

lemma matchGlobal_checks:
  "matchGlobal ''no.*refund'' ''There is no refund. No Refund here'' =
     [''no refund. No Refund'']"
  "matchGlobal ''no.*refund'' (''There is no refund.'' @ [CHR 0x0A] @ ''No Refund here'') =
     [''no refund'', ''No Refund'']"
  "matchGlobal ''auto.?renewal'' ''Auto-Renewal, autorenewal, auto  renewal, AUTOxRENEWAL'' =
     [''Auto-Renewal'', ''autorenewal'', ''AUTOxRENEWAL'']"
  by (simp_all add: matchGlobal_def char_eval)

lemma trim_checks:
  "trim ''  a b  '' = ''a b''"
  "trim ''   '' = []"
  by (simp_all add: trim_def char_eval)

lemma detect_no_refund:
  "detectRiskyClausesRuleBased ''No refund'' =
     [\<lparr>title = ''Refund Restrictions'', quote = ''No refund...'', explanation = None,
       severity = ''Medium'', category = ''refund-restrictions'', riskScore = 4\<rparr>]"
  by (simp add: char_eval detect_eval)


lemma detect_twoRenewals:
  "detectRiskyClausesRuleBased twoRenewals =
     [renewalClause
        ''The parties agree that under this master agreement auto-renewal applies...'',
      renewalClause
        ''The parties agree that under this master agreement auto renewal applies...'']"
  by (simp add: twoRenewals_def char_eval detect_eval renewalClause_def)

lemma detect_elevenRenewals:
  "map quote (detectRiskyClausesRuleBased elevenRenewals) =
     [''auto0renewal...'', ''auto1renewal...'', ''auto2renewal...'', ''auto3renewal...'',
      ''auto4renewal...'', ''auto5renewal...'', ''auto6renewal...'', ''auto7renewal...'',
      ''auto8renewal...'', ''auto9renewal...'', ''auto renewal...'']"
  by (simp add: elevenRenewals_def char_eval detect_eval)

section \<open>The scorer\<close>





















section \<open>The recommendation\<close>

lemma highCount_filter: "length (filter (\<lambda>c. severity c = ''High'') cs) = highCount cs"
  by (simp add: highCount_def length_filter_conv_card)

lemma generateRecommendation_Num:
  "generateRecommendation (Num (of_int s)) cs =
      (if 70 \<le> s \<or> 2 \<le> highCount cs then ''Avoid signing''
       else if 40 \<le> s \<or> 1 \<le> highCount cs then ''Review carefully''
       else ''Safe to sign'')"
proof -
  have a: "js_ge (Num (of_int s)) 70 = (70 \<le> s)" by simp
  have b: "js_ge (Num (of_int s)) 40 = (40 \<le> s)" by simp
  show ?thesis
    unfolding generateRecommendation_def Let_def highCount_filter a b ..
qed


text \<open>
  C5. For every integer score \<open>s\<close> and every clause list, with \<open>highCount\<close> the number of
  clauses whose severity is High: the recommendation is "Avoid signing" iff \<open>s \<ge> 70\<close> or
  \<open>highCount \<ge> 2\<close>; otherwise "Review carefully" iff \<open>s \<ge> 40\<close> or \<open>highCount \<ge> 1\<close>;
  otherwise "Safe to sign".
\<close>

theorem recommendation_thresholds:
  "(generateRecommendation (Num (of_int s)) cs = ''Avoid signing'' \<longleftrightarrow>
      70 \<le> s \<or> 2 \<le> highCount cs) \<and>
   (generateRecommendation (Num (of_int s)) cs = ''Review carefully'' \<longleftrightarrow>
      \<not> (70 \<le> s \<or> 2 \<le> highCount cs) \<and> (40 \<le> s \<or> 1 \<le> highCount cs)) \<and>
   (generateRecommendation (Num (of_int s)) cs = ''Safe to sign'' \<longleftrightarrow>
      \<not> (70 \<le> s \<or> 2 \<le> highCount cs) \<and> \<not> (40 \<le> s \<or> 1 \<le> highCount cs))"
  unfolding generateRecommendation_Num by simp

text \<open>C5 at the score 39 with one High clause of the model.\<close>

theorem recommendation_thresholds_witness:
  "highCount [clauseOf ''High'' ''penalty'' 8] = 1 \<and>
   generateRecommendation (Num (of_int 39)) [clauseOf ''High'' ''penalty'' 8] = ''Review carefully''"
proof -
  have h: "highCount [clauseOf ''High'' ''penalty'' 8] = 1"
    unfolding highCount_filter [symmetric] by (simp add: clauseOf_def)
  show ?thesis
    using recommendation_thresholds [of 39 "[clauseOf ''High'' ''penalty'' 8]"] h by simp
qed




section \<open>Deduplication\<close>

lemma removeDuplicateClauses_alt: "removeDuplicateClauses cs = foldl (dedupStep 100) [] cs"
  by (simp add: removeDuplicateClauses_def dedupStep_def [abs_def])

lemma combineRiskyClauses_alt: "combineRiskyClauses rb ai = take 10 (foldl (dedupStep 50) rb ai)"
  by (simp add: combineRiskyClauses_def dedupStep_def [abs_def])


lemma dedupStep_set: "set (dedupStep n acc c) \<subseteq> insert c (set acc)"
  by (auto simp: dedupStep_def)

lemma foldl_dedupStep_set: "set (foldl (dedupStep n) acc cs) \<subseteq> set acc \<union> set cs"
proof (induction cs arbitrary: acc)
  case Nil
  then show ?case by simp
next
  case (Cons c cs)
  show ?case
    using Cons.IH [of "dedupStep n acc c"] dedupStep_set [of n acc c] by auto
qed

lemma dedupStep_prefix:
  "take (length acc) (dedupStep n acc c) = acc \<and> length acc \<le> length (dedupStep n acc c)"
  by (simp add: dedupStep_def)

lemma dedupStep_collisions:
  assumes "collisionsBelow n k acc" and "k \<le> length acc"
  shows "collisionsBelow n k (dedupStep n acc c)"
proof (cases "list_ex (\<lambda>existing. isDuplicateOf n existing c) acc")
  case True
  then show ?thesis
    using assms(1) by (simp add: dedupStep_def)
next
  case False
  then have fresh: "\<not> isDuplicateOf n (acc ! i) c" if "i < length acc" for i
    using that by (auto simp: list_ex_iff)
  have "j < k"
    if ij: "i < j" and j: "j < length (acc @ [c])"
      and d: "isDuplicateOf n ((acc @ [c]) ! i) ((acc @ [c]) ! j)" for i j
  proof (cases "j < length acc")
    case True
    then show ?thesis
      using assms(1) ij d by (auto simp: collisionsBelow_def nth_append)
  next
    case False
    then have last: "j = length acc"
      using j by simp
    then have "isDuplicateOf n (acc ! i) c"
      using d ij by (simp add: nth_append)
    then show ?thesis
      using fresh ij last by blast
  qed
  then have "collisionsBelow n k (acc @ [c])"
    unfolding collisionsBelow_def by blast
  then show ?thesis
    using False by (simp add: dedupStep_def)
qed

lemma foldl_dedupStep_inv:
  assumes "collisionsBelow n k acc" and "k \<le> length acc"
  shows "collisionsBelow n k (foldl (dedupStep n) acc cs) \<and>
         take (length acc) (foldl (dedupStep n) acc cs) = acc \<and>
         length acc \<le> length (foldl (dedupStep n) acc cs)"
  using assms
proof (induction cs arbitrary: acc)
  case Nil
  then show ?case by simp
next
  case (Cons c cs)
  let ?a = "dedupStep n acc c"
  have p: "collisionsBelow n k ?a"
    using Cons.prems by (rule dedupStep_collisions)
  have l: "length acc \<le> length ?a" and t: "take (length acc) ?a = acc"
    using dedupStep_prefix [of acc n c] by simp_all
  have k: "k \<le> length ?a"
    using Cons.prems(2) l by simp
  have ih: "collisionsBelow n k (foldl (dedupStep n) ?a cs) \<and>
         take (length ?a) (foldl (dedupStep n) ?a cs) = ?a \<and>
         length ?a \<le> length (foldl (dedupStep n) ?a cs)"
    using p k by (rule Cons.IH)
  have "take (length acc) (foldl (dedupStep n) ?a cs) =
      take (length acc) (take (length ?a) (foldl (dedupStep n) ?a cs))"
    using l by (simp add: min_absorb1)
  also have "\<dots> = acc"
    using ih t by simp
  finally show ?case
    using ih l by simp
qed


lemma collisionsBelow_take: "collisionsBelow n k xs \<Longrightarrow> collisionsBelow n k (take m xs)"
  by (auto simp: collisionsBelow_def)

lemma collisionsBelow_length: "collisionsBelow n (length xs) xs"
  by (simp add: collisionsBelow_def)


lemma removeDuplicateClauses_subset: "set (removeDuplicateClauses cs) \<subseteq> set cs"
  using foldl_dedupStep_set [of 100 "[]" cs] by (simp add: removeDuplicateClauses_alt)



lemma combineRiskyClauses_length: "length (combineRiskyClauses rb ai) \<le> 10"
  by (simp add: combineRiskyClauses_def)

text \<open>
  C6 (as amended). The merged list starts with the rule-based clauses, in order and cut
  at 10, and two entries of the merged list with the same category and the same first
  50 code units of the quote are always both rule-based: a clause of the model that
  collides with an entry already there is never added, while rule-based clauses that
  collide with each other are all kept.
\<close>

theorem combine_collisions_rule_based:
  "take (length rb) (combineRiskyClauses rb ai) = take 10 rb \<and>
   (\<forall>i j. i < j \<and> j < length (combineRiskyClauses rb ai) \<and>
      isDuplicateOf 50 (combineRiskyClauses rb ai ! i) (combineRiskyClauses rb ai ! j)
      \<longrightarrow> j < length rb)"
proof -
  let ?f = "foldl (dedupStep 50) rb ai"
  have inv: "collisionsBelow 50 (length rb) ?f \<and> take (length rb) ?f = rb \<and>
      length rb \<le> length ?f"
    by (rule foldl_dedupStep_inv) (simp_all add: collisionsBelow_length)
  have "take (length rb) (take 10 ?f) = take 10 (take (length rb) ?f)"
    by (simp add: min.commute)
  then have a: "take (length rb) (combineRiskyClauses rb ai) = take 10 rb"
    using inv by (simp add: combineRiskyClauses_alt)
  have "collisionsBelow 50 (length rb) (take 10 ?f)"
    using inv by (intro collisionsBelow_take) simp
  then have b: "\<forall>i j. i < j \<and> j < length (combineRiskyClauses rb ai) \<and>
      isDuplicateOf 50 (combineRiskyClauses rb ai ! i) (combineRiskyClauses rb ai ! j)
      \<longrightarrow> j < length rb"
    unfolding collisionsBelow_def combineRiskyClauses_alt .
  show ?thesis
    using a b by (rule conjI)
qed

lemma combine_twoRenewals_reported:
  "combineRiskyClauses (detectRiskyClausesRuleBased twoRenewals) reportedClauses =
     detectRiskyClausesRuleBased twoRenewals @ [reportedClauses ! 1]"
  by (simp add: detect_twoRenewals reportedClauses_def combineRiskyClauses_def
      isDuplicateOf_def renewalClause_def)

text \<open>
  The amended C6 on the clauses detected in \<open>twoRenewals\<close> and two clauses of the model:
  the first clause of the model collides with a detected one and is dropped, the second
  is added; the entries 0 and 1 of the merged list collide, and both are rule-based.
\<close>

theorem combine_collisions_rule_based_witness:
  "(0::nat) < 1 \<and>
   1 < length (combineRiskyClauses (detectRiskyClausesRuleBased twoRenewals) reportedClauses) \<and>
   isDuplicateOf 50
     (combineRiskyClauses (detectRiskyClausesRuleBased twoRenewals) reportedClauses ! 0)
     (combineRiskyClauses (detectRiskyClausesRuleBased twoRenewals) reportedClauses ! 1) \<and>
   1 < length (detectRiskyClausesRuleBased twoRenewals) \<and>
   length (combineRiskyClauses (detectRiskyClausesRuleBased twoRenewals) reportedClauses) = 3 \<and>
   take (length (detectRiskyClausesRuleBased twoRenewals))
     (combineRiskyClauses (detectRiskyClausesRuleBased twoRenewals) reportedClauses) =
   take 10 (detectRiskyClausesRuleBased twoRenewals)"
proof -
  let ?rb = "detectRiskyClausesRuleBased twoRenewals"
  let ?out = "combineRiskyClauses ?rb reportedClauses"
  have len: "length ?out = 3"
    unfolding combine_twoRenewals_reported by (simp add: detect_twoRenewals)
  have dup: "isDuplicateOf 50 (?out ! 0) (?out ! 1)"
    unfolding combine_twoRenewals_reported
    by (simp add: detect_twoRenewals isDuplicateOf_def renewalClause_def)
  have all: "take (length ?rb) ?out = take 10 ?rb \<and>
      (\<forall>i j. i < j \<and> j < length ?out \<and> isDuplicateOf 50 (?out ! i) (?out ! j)
        \<longrightarrow> j < length ?rb)"
    by (rule combine_collisions_rule_based)
  then have "(0::nat) < 1 \<and> 1 < length ?out \<and> isDuplicateOf 50 (?out ! 0) (?out ! 1)
      \<longrightarrow> 1 < length ?rb"
    by blast
  then have "1 < length ?rb"
    using len dup by simp
  then show ?thesis
    using len dup all by simp
qed

text \<open>
  C6 as stated fails: the detector finds two clauses in \<open>twoRenewals\<close>, of the same
  category and with the same first 50 code units of the quote (they differ within the
  first 100, so \<open>removeDuplicateClauses\<close> keeps both), and merging them with no clause of
  the model keeps both.
\<close>

theorem combine_keeps_collision_counterexample:
  "combineRiskyClauses (detectRiskyClausesRuleBased twoRenewals) [] =
     [renewalClause
        ''The parties agree that under this master agreement auto-renewal applies...'',
      renewalClause
        ''The parties agree that under this master agreement auto renewal applies...''] \<and>
   category (combineRiskyClauses (detectRiskyClausesRuleBased twoRenewals) [] ! 0) =
   category (combineRiskyClauses (detectRiskyClausesRuleBased twoRenewals) [] ! 1) \<and>
   take 50 (quote (combineRiskyClauses (detectRiskyClausesRuleBased twoRenewals) [] ! 0)) =
   take 50 (quote (combineRiskyClauses (detectRiskyClausesRuleBased twoRenewals) [] ! 1))"
  by (simp add: detect_twoRenewals combineRiskyClauses_def renewalClause_def)

section \<open>The pattern detector\<close>

lemma clausesOfMatch_elem:
  assumes "c \<in> set (clausesOfMatch text riskType config m)"
  shows "\<exists>s\<in>set (splitSentences text).
           includes_str (toLowerCase s) (toLowerCase m) \<and> trim s \<noteq> [] \<and>
           c = \<lparr>title = formatRiskTitle riskType,
                quote = take 300 (trim s) @ ''...'',
                explanation = None,
                severity = cfg_severity config,
                category = cfg_category config,
                riskScore = calculateClauseRiskScore (cfg_severity config) (cfg_category config)\<rparr>"
proof -
  obtain s where f: "find (\<lambda>sentence. includes_str (toLowerCase sentence) (toLowerCase m))
             (splitSentences text) = Some s"
    using assms
    by (cases "find (\<lambda>sentence. includes_str (toLowerCase sentence) (toLowerCase m))
             (splitSentences text)") (auto simp: clausesOfMatch_def)
  then obtain i where "i < length (splitSentences text)" and "s = splitSentences text ! i"
    and inc: "includes_str (toLowerCase s) (toLowerCase m)"
    by (auto simp: find_Some_iff)
  then have mem: "s \<in> set (splitSentences text)"
    by simp
  show ?thesis
    using assms f mem inc by (auto simp: clausesOfMatch_def split: if_splits)
qed

lemma detectedClauses_elem:
  assumes "c \<in> set (detectedClauses text)"
  shows "\<exists>riskType config pattern m s.
           (riskType, config) \<in> set riskPatterns \<and> pattern \<in> set (patterns config) \<and>
           m \<in> set (matchGlobal pattern text) \<and> s \<in> set (splitSentences text) \<and>
           includes_str (toLowerCase s) (toLowerCase m) \<and> trim s \<noteq> [] \<and>
           c = \<lparr>title = formatRiskTitle riskType,
                quote = take 300 (trim s) @ ''...'',
                explanation = None,
                severity = cfg_severity config,
                category = cfg_category config,
                riskScore = calculateClauseRiskScore (cfg_severity config) (cfg_category config)\<rparr>"
proof -
  obtain riskType config pattern m where
    "(riskType, config) \<in> set riskPatterns" "pattern \<in> set (patterns config)"
    "m \<in> set (matchGlobal pattern text)" "c \<in> set (clausesOfMatch text riskType config m)"
    using assms unfolding detectedClauses_def by auto
  then show ?thesis
    using clausesOfMatch_elem [of c "text" riskType config m] by blast
qed

text \<open>
  C9 (as amended). The quote of every clause the detector emits is the first 300 code
  units of a trimmed, non-empty sentence of the text that contains a match of one of the
  patterns, always followed by the three dots, whether or not the sentence was cut.
\<close>

theorem quote_always_ellipsis:
  assumes "c \<in> set (detectRiskyClausesRuleBased text)"
  shows "\<exists>riskType config pattern m s.
           (riskType, config) \<in> set riskPatterns \<and> pattern \<in> set (patterns config) \<and>
           m \<in> set (matchGlobal pattern text) \<and> s \<in> set (splitSentences text) \<and>
           includes_str (toLowerCase s) (toLowerCase m) \<and> trim s \<noteq> [] \<and>
           quote c = take 300 (trim s) @ ''...''"
proof -
  have "c \<in> set (detectedClauses text)"
    using assms removeDuplicateClauses_subset unfolding detectRiskyClausesRuleBased_def
    by blast
  then obtain riskType config pattern m s where
    "(riskType, config) \<in> set riskPatterns" "pattern \<in> set (patterns config)"
    "m \<in> set (matchGlobal pattern text)" "s \<in> set (splitSentences text)"
    "includes_str (toLowerCase s) (toLowerCase m)" "trim s \<noteq> []"
    "c = \<lparr>title = formatRiskTitle riskType,
          quote = take 300 (trim s) @ ''...'',
          explanation = None,
          severity = cfg_severity config,
          category = cfg_category config,
          riskScore = calculateClauseRiskScore (cfg_severity config) (cfg_category config)\<rparr>"
    using detectedClauses_elem [of c "text"] by blast
  then show ?thesis
    by (intro exI [of _ riskType] exI [of _ config] exI [of _ pattern] exI [of _ m]
        exI [of _ s]) simp
qed

text \<open>The amended C9 on the clause detected in "No refund".\<close>

theorem quote_always_ellipsis_witness:
  "hd (detectRiskyClausesRuleBased ''No refund'') \<in> set (detectRiskyClausesRuleBased ''No refund'') \<and>
   (\<exists>riskType config pattern m s.
       (riskType, config) \<in> set riskPatterns \<and> pattern \<in> set (patterns config) \<and>
       m \<in> set (matchGlobal pattern ''No refund'') \<and> s \<in> set (splitSentences ''No refund'') \<and>
       includes_str (toLowerCase s) (toLowerCase m) \<and> trim s \<noteq> [] \<and>
       quote (hd (detectRiskyClausesRuleBased ''No refund'')) = take 300 (trim s) @ ''...'')"
proof -
  have m: "hd (detectRiskyClausesRuleBased ''No refund'') \<in>
      set (detectRiskyClausesRuleBased ''No refund'')"
    by (simp add: detect_no_refund)
  show ?thesis
    using m quote_always_ellipsis [OF m] by (rule conjI)
qed

text \<open>
  C9 as stated fails: the only sentence of "No refund" has 9 code units, well within
  300, and the quote of the detected clause is "No refund..." and not the sentence.
\<close>

theorem quote_short_sentence_counterexample:
  "map quote (detectRiskyClausesRuleBased ''No refund'') = [''No refund...''] \<and>
   map trim (splitSentences ''No refund'') = [''No refund''] \<and>
   length ''No refund'' = 9"
  by (simp add: detect_no_refund trim_def char_eval)

section \<open>The pipeline\<close>









lemma enhance_length:
  "length (enhanceClausesWithExplanations explain k cs) = length cs"
  by (induction cs arbitrary: k) simp_all




lemma createFallbackAnalysis_fields:
  "riskyClauses (createFallbackAnalysis contractText fileName cs s r) =
     (if length cs = 0 then detectRiskyClausesRuleBased contractText else cs)"
  "confidence (createFallbackAnalysis contractText fileName cs s r) = 6 / 10"
  "overallRiskScore (createFallbackAnalysis contractText fileName cs (Some s') r) = s'"
  "recommendation (createFallbackAnalysis contractText fileName cs s (Some r')) = r'"
  by (simp_all add: createFallbackAnalysis_def Let_def)

lemma fallback_riskyClauses:
  "riskyClauses (createFallbackAnalysis contractText fileName
      (map withDefaultExplanation (detectRiskyClausesRuleBased contractText)) s r) =
   map withDefaultExplanation (detectRiskyClausesRuleBased contractText)"
  by (simp add: createFallbackAnalysis_fields)

text \<open>
  When the call rejects, or the reply makes the \<open>try\<close> block throw, the handler returns
  every detected clause with its explanation filled in: no merge, and no cut at 10.
\<close>

lemma analyzeContract_handler:
  assumes "reply = CallError msg \<or> reply = ShapeError"
  shows "analyzeContract contractText fileName reply explain =
     Inr (createFallbackAnalysis contractText fileName
            (map withDefaultExplanation (detectRiskyClausesRuleBased contractText))
            (Some (calculateOverallRiskScore
               (map withDefaultExplanation (detectRiskyClausesRuleBased contractText))))
            (Some (generateRecommendation
               (calculateOverallRiskScore
                  (map withDefaultExplanation (detectRiskyClausesRuleBased contractText)))
               (map withDefaultExplanation (detectRiskyClausesRuleBased contractText)))))"
  using assms
  by (auto simp: analyzeContract_def analyzeTry_def Let_def withDefaultExplanation_def [abs_def])


text \<open>Whatever the \<open>try\<close> block returns has at most 10 clauses.\<close>

lemma analyzeTry_capped:
  "analyzeTry contractText fileName reply explain = Inr r \<Longrightarrow> length (riskyClauses r) \<le> 10"
  by (cases reply)
    (auto simp: analyzeTry_def Let_def combineRiskyClauses_length enhance_length)





text \<open>
  C2 (the code departs from it). When the model call fails, the analysis returned for
  the text \<open>elevenRenewals\<close> lists eleven risky clauses: the handler of \<open>analyzeContract\<close>
  returns all detected clauses, without the cut at 10 that \<open>combineRiskyClauses\<close> makes
  on the other paths (\<open>analyzeTry_capped\<close>).
\<close>

theorem fallback_clauses_exceed_cap:
  "\<exists>r. analyzeContract elevenRenewals ''contract.pdf'' (CallError ''quota exceeded'')
          (\<lambda>k. None) = Inr r \<and>
       length (riskyClauses r) = 11 \<and>
       map quote (riskyClauses r) =
         [''auto0renewal...'', ''auto1renewal...'', ''auto2renewal...'', ''auto3renewal...'',
          ''auto4renewal...'', ''auto5renewal...'', ''auto6renewal...'', ''auto7renewal...'',
          ''auto8renewal...'', ''auto9renewal...'', ''auto renewal...'']"
proof -
  let ?cs = "map withDefaultExplanation (detectRiskyClausesRuleBased elevenRenewals)"
  let ?r = "createFallbackAnalysis elevenRenewals ''contract.pdf'' ?cs
            (Some (calculateOverallRiskScore ?cs))
            (Some (generateRecommendation (calculateOverallRiskScore ?cs) ?cs))"
  have run: "analyzeContract elevenRenewals ''contract.pdf'' (CallError ''quota exceeded'')
          (\<lambda>k. None) = Inr ?r"
    by (intro analyzeContract_handler) simp
  have cl: "riskyClauses ?r = ?cs"
    by (rule fallback_riskyClauses)
  have "map quote ?cs = map quote (detectRiskyClausesRuleBased elevenRenewals)"
    by (simp add: withDefaultExplanation_def)
  then have q: "map quote (riskyClauses ?r) =
         [''auto0renewal...'', ''auto1renewal...'', ''auto2renewal...'', ''auto3renewal...'',
          ''auto4renewal...'', ''auto5renewal...'', ''auto6renewal...'', ''auto7renewal...'',
          ''auto8renewal...'', ''auto9renewal...'', ''auto renewal...'']"
    unfolding cl by (simp only: detect_elevenRenewals)
  have "length (map quote (riskyClauses ?r)) = 11"
    unfolding q by simp
  then have len: "length (riskyClauses ?r) = 11"
    by (simp only: length_map)
  show ?thesis
    by (intro exI [of _ ?r] conjI) (rule run, rule len, rule q)
qed

end
